theory Spec2Isabelle
  imports Main "HOL-Library.Sublist"
begin

section \<open>The world around whisper\_marko.py\<close>

text \<open>
  The program is glue around four collaborators it does not implement: the whisper
  library, standard input, the file system and the logging module. Each collaborator is a
  field of the environment \<open>env\<close> or of the mutable \<open>world\<close>; every function of
  the source takes the world and returns its outcome together with the new world.

  An exception is a value \<open>Exn c m\<close>: its class and the text \<open>str(e)\<close> that an
  f-string prints. The type stands for the instances of Python's \<open>Exception\<close>, which
  is what every \<open>except Exception\<close> clause of the source catches.
\<close>

datatype exn_class =
  KeyError | TypeError | OSError | FuturesTimeoutError | OverflowError | EOFError
  | RuntimeError

datatype exn = Exn (class_of: exn_class) (str: string)

text \<open>
  A value stored in the result dictionary: the transcript is a \<open>str\<close>; the engine's
  other fields (segments, language) and anything else that is not a \<open>str\<close> are
  \<open>NonStr\<close>, with the name of their type.
\<close>

datatype pyval = Str string | NonStr string

type_synonym result = "string \<rightharpoonup> pyval"

datatype fnode = File string | Dir

text \<open>
  Several paths can name one file (\<open>outputfile.txt\<close> and \<open>./outputfile.txt\<close>, a
  link and its target). A \<open>file_id\<close> stands for the file, or the free place, that a path
  names; the files of the world are kept by it.
\<close>

type_synonym file_id = string

text \<open>
  A call of \<open>model.transcribe(path)\<close> sees the path and what the file system holds
  there; it answers after some number of seconds with a dictionary or an exception. A
  deterministic engine is a function of these two inputs.
\<close>

datatype engine = Engine (transcribe: "string \<Rightarrow> fnode option \<Rightarrow> nat \<times> (exn + result)")

text \<open>
  What the collaborators answer during one run:
  \<^item> \<open>whisper.load_model(name)\<close>, after some seconds;
  \<^item> the line that \<open>input()\<close> reads, or its \<open>EOFError\<close>;
  \<^item> which file a path names;
  \<^item> the \<open>OSError\<close> with which \<open>Path(path).is_file()\<close> fails, if it does (a name
    too long, a directory that may not be searched; a missing file is no failure);
  \<^item> the error that \<open>open\<close> raises on a path that names a directory;
  \<^item> whether the file system refuses to open a path for writing, and whether it fails
    a write, after how many characters;
  \<^item> the \<open>OverflowError\<close> with which the platform refuses to wait a given number
    of seconds, if it does (a timeout above \<open>threading.TIMEOUT_MAX\<close>);
  \<^item> whether an answer of the engine that arrives in the very second the timeout
    expires is still taken.

  The library calls are taken to return and to leave the files alone.
\<close>

record env =
  whisper_load_model :: "string \<Rightarrow> nat \<times> (exn + engine)"
  stdin_line :: "exn + string"
  file_named :: "string \<Rightarrow> file_id"
  stat_error :: "string \<Rightarrow> exn option"
  is_a_directory_error :: "string \<Rightarrow> exn"
  open_error :: "string \<Rightarrow> exn option"
  write_error :: "string \<Rightarrow> string \<Rightarrow> (nat \<times> exn) option"
  wait_refused :: "int \<Rightarrow> exn option"
  answer_wins_race :: bool

datatype level = INFO | ERROR

datatype call =
  LoadModel string
  | Input string
  | IsFile string
  | Transcribe string
  | Open string
  | Write string

text \<open>
  The world a run changes: the files; the clock, in seconds; the log lines; and the calls
  made to the collaborators, in order, with the paths as written.
\<close>

record world =
  files :: "file_id \<rightharpoonup> fnode"
  clock :: nat
  log :: "(level \<times> string) list"
  calls :: "call list"

definition logging_info :: "string \<Rightarrow> world \<Rightarrow> world" where
  "logging_info msg w = w\<lparr>log := log w @ [(INFO, msg)]\<rparr>"

definition logging_error :: "string \<Rightarrow> world \<Rightarrow> world" where
  "logging_error msg w = w\<lparr>log := log w @ [(ERROR, msg)]\<rparr>"

definition called :: "call \<Rightarrow> world \<Rightarrow> world" where
  "called c w = w\<lparr>calls := calls w @ [c]\<rparr>"

definition sleep :: "nat \<Rightarrow> world \<Rightarrow> world" where
  "sleep d w = w\<lparr>clock := clock w + d\<rparr>"

subsection \<open>Formatting inside the f-strings\<close>

definition quoted :: "string \<Rightarrow> string" where
  "quoted s = CHR 0x27 # s @ [CHR 0x27]"

fun str_nat :: "nat \<Rightarrow> string" where
  "str_nat n =
     (if n < 10 then [''0123456789'' ! n]
      else str_nat (n div 10) @ [''0123456789'' ! (n mod 10)])"

declare str_nat.simps [simp del]

definition str_int :: "int \<Rightarrow> string" where
  "str_int i = (if i < 0 then CHR ''-'' # str_nat (nat (- i)) else str_nat (nat i))"

text \<open>The clock counts whole seconds, so \<open>{x:.2f}\<close> prints two zero decimals.\<close>

definition fmt_2f :: "nat \<Rightarrow> string" where
  "fmt_2f d = str_nat d @ ''.00''"

section \<open>load\_model\<close>

text \<open>The body of the \<open>try\<close> of \<open>load_model\<close> (lines 23-24).\<close>

definition load_try :: "env \<Rightarrow> string \<Rightarrow> world \<Rightarrow> (exn + engine) \<times> world" where
  "load_try E model_name w =
     (let (d, r) = whisper_load_model E model_name;
          w1 = sleep d (called (LoadModel model_name) w)
      in case r of
           Inl e \<Rightarrow> (Inl e, w1)
         | Inr model \<Rightarrow>
             (Inr model,
              logging_info (''Model '' @ quoted model_name @ '' loaded successfully.'') w1))"

definition load_model :: "env \<Rightarrow> string \<Rightarrow> world \<Rightarrow> (exn + engine) \<times> world" where
  "load_model E model_name w =
     (let start_time = clock w
      in case load_try E model_name w of
           (Inl e, w1) \<Rightarrow>
             (Inl e,
              logging_error
                (''Failed to load the model '' @ quoted model_name @ ''. Error: '' @ str e) w1)
         | (Inr model, w1) \<Rightarrow>
             (let end_time = clock w1
              in (Inr model,
                  logging_info
                    (''Time taken to load model: '' @ fmt_2f (end_time - start_time)
                       @ '' seconds'') w1)))"

section \<open>transcribe\_audio\<close>

text \<open>
  \<open>future.result(timeout=t)\<close>, called right after the submit, on a worker that answers
  \<open>r\<close> after \<open>d\<close> seconds. A wait that the platform refuses fails at once with the
  platform's error. Otherwise the caller gets the answer itself when it arrives before
  \<open>t\<close> seconds have passed, and a \<open>TimeoutError\<close> (whose \<open>str\<close> is empty) once
  they have; when the answer arrives in the very second the timeout expires, the two
  race and the environment says which one wins. The first component is the number of
  seconds the caller has waited.
\<close>

definition future_result ::
  "env \<Rightarrow> nat \<times> (exn + result) \<Rightarrow> int \<Rightarrow> nat \<times> (exn + result)" where
  "future_result E run timeout =
     (case wait_refused E timeout of
        Some e \<Rightarrow> (0, Inl e)
      | None \<Rightarrow>
          (if int (fst run) < timeout \<or> (int (fst run) = timeout \<and> answer_wins_race E)
           then run
           else (nat timeout, Inl (Exn FuturesTimeoutError []))))"

text \<open>
  Leaving \<open>with ThreadPoolExecutor() as executor\<close>, normally or by an exception, runs
  \<open>executor.shutdown(wait=True)\<close>, which joins the worker: the block is left when the
  worker has answered, \<open>d\<close> seconds after it was submitted, or at once when that moment
  has already passed.
\<close>

definition executor_exit :: "nat \<Rightarrow> nat \<Rightarrow> world \<Rightarrow> world" where
  "executor_exit d waited w = sleep (d - waited) w"

text \<open>The body of the \<open>try\<close> of \<open>transcribe_audio\<close> (lines 44-47).\<close>

definition transcribe_try ::
  "env \<Rightarrow> engine \<Rightarrow> string \<Rightarrow> int \<Rightarrow> world \<Rightarrow> (exn + result) \<times> world" where
  "transcribe_try E model audio_path timeout w =
     (let run = transcribe model audio_path (files w (file_named E audio_path));
          w1 = called (Transcribe audio_path) w;
          (waited, r) = future_result E run timeout;
          w2 = sleep waited w1
      in case r of
           Inl e \<Rightarrow> (Inl e, executor_exit (fst run) waited w2)
         | Inr res \<Rightarrow>
             (Inr res,
              executor_exit (fst run) waited
                (logging_info ''Transcription completed successfully.'' w2)))"

definition default_timeout :: int where
  "default_timeout = 300"

text \<open>
  The parameter \<open>timeout: int = 300\<close>: a caller that passes no timeout (\<open>None\<close>
  here) gets the default.
\<close>

definition timeout_of :: "int option \<Rightarrow> int" where
  "timeout_of timeout_arg = (case timeout_arg of None \<Rightarrow> default_timeout | Some t \<Rightarrow> t)"

definition transcribe_audio ::
  "env \<Rightarrow> engine \<Rightarrow> string \<Rightarrow> int option \<Rightarrow> world \<Rightarrow> (exn + result) \<times> world" where
  "transcribe_audio E model audio_path timeout_arg w =
     (let timeout = timeout_of timeout_arg;
          start_time = clock w
      in case transcribe_try E model audio_path timeout w of
           (Inl e, w1) \<Rightarrow>
             (if class_of e = FuturesTimeoutError
              then (Inl e,
                    logging_error
                      (''Transcription timed out after '' @ str_int timeout @ '' seconds.'') w1)
              else (Inl e, logging_error (''Transcription failed. Error: '' @ str e) w1))
         | (Inr res, w1) \<Rightarrow>
             (let end_time = clock w1
              in (Inr res,
                  logging_info
                    (''Time taken to transcribe audio: '' @ fmt_2f (end_time - start_time)
                       @ '' seconds'') w1)))"

section \<open>save\_transcription\<close>

text \<open>
  \<open>open(path, 'w')\<close>: a directory cannot be opened for writing, the environment may
  refuse (permissions, missing parent directory); otherwise the file that the path names
  exists afterwards and is empty.
\<close>

definition open_w :: "env \<Rightarrow> string \<Rightarrow> world \<Rightarrow> (exn + unit) \<times> world" where
  "open_w E path w =
     (let w1 = called (Open path) w
      in if files w (file_named E path) = Some Dir
         then (Inl (is_a_directory_error E path), w1)
         else case open_error E path of
                Some e \<Rightarrow> (Inl e, w1)
              | None \<Rightarrow> (Inr (), w1\<lparr>files := (files w1)(file_named E path \<mapsto> File [])\<rparr>))"

text \<open>\<open>result['text']\<close>: \<open>str(KeyError('text'))\<close> is the quoted key.\<close>

definition subscript :: "result \<Rightarrow> string \<Rightarrow> exn + pyval" where
  "subscript d k = (case d k of None \<Rightarrow> Inl (Exn KeyError (quoted k)) | Some v \<Rightarrow> Inr v)"

text \<open>
  \<open>file.write(v)\<close> followed by the close at the end of the \<open>with\<close> block, on the
  file just opened: only a \<open>str\<close> can be written; when the environment fails the write
  after \<open>n\<close> characters (disk full, a character the encoding lacks), those stay in the
  file. A file holds the text as written: the encoding of text mode, and its writing of
  a line feed as the platform's line separator, are left out.
\<close>

definition file_write :: "env \<Rightarrow> string \<Rightarrow> pyval \<Rightarrow> world \<Rightarrow> (exn + unit) \<times> world" where
  "file_write E path v w =
     (case v of
        NonStr ty \<Rightarrow> (Inl (Exn TypeError (''write() argument must be str, not '' @ ty)), w)
      | Str s \<Rightarrow>
          (let w1 = called (Write path) w
           in case write_error E path s of
                Some (n, e) \<Rightarrow>
                  (Inl e, w1\<lparr>files := (files w1)(file_named E path \<mapsto> File (take n s))\<rparr>)
              | None \<Rightarrow> (Inr (), w1\<lparr>files := (files w1)(file_named E path \<mapsto> File s)\<rparr>)))"

text \<open>The body of the \<open>try\<close> of \<open>save_transcription\<close> (lines 67-69).\<close>

definition save_try :: "env \<Rightarrow> result \<Rightarrow> string \<Rightarrow> world \<Rightarrow> (exn + unit) \<times> world" where
  "save_try E res output_file w =
     (case open_w E output_file w of
        (Inl e, w1) \<Rightarrow> (Inl e, w1)
      | (Inr u, w1) \<Rightarrow>
          (case subscript res ''text'' of
             Inl e \<Rightarrow> (Inl e, w1)
           | Inr v \<Rightarrow>
               (case file_write E output_file v w1 of
                  (Inl e, w2) \<Rightarrow> (Inl e, w2)
                | (Inr u', w2) \<Rightarrow>
                    (Inr (),
                     logging_info
                       (''Transcription saved to '' @ quoted output_file @ ''.'') w2))))"

definition save_transcription :: "env \<Rightarrow> result \<Rightarrow> string \<Rightarrow> world \<Rightarrow> (exn + unit) \<times> world" where
  "save_transcription E res output_file w =
     (case save_try E res output_file w of
        (Inl e, w1) \<Rightarrow>
          (Inl e,
           logging_error
             (''Failed to save transcription to '' @ quoted output_file @ ''. Error: '' @ str e)
             w1)
      | (Inr u, w1) \<Rightarrow> (Inr (), w1))"

section \<open>main\<close>

definition input :: "env \<Rightarrow> string \<Rightarrow> world \<Rightarrow> (exn + string) \<times> world" where
  "input E prompt w = (stdin_line E, called (Input prompt) w)"

text \<open>
  \<open>Path(path).is_file()\<close>: whether the path names an existing regular file. A failure
  to read the status of the path, other than the file being absent, is raised.
\<close>

definition is_file :: "env \<Rightarrow> string \<Rightarrow> world \<Rightarrow> (exn + bool) \<times> world" where
  "is_file E path w =
     (let w1 = called (IsFile path) w
      in case stat_error E path of
           Some e \<Rightarrow> (Inl e, w1)
         | None \<Rightarrow>
             (Inr (case files w (file_named E path) of Some (File c) \<Rightarrow> True | _ \<Rightarrow> False),
              w1))"

definition output_file_name :: string where
  "output_file_name = ''outputfile.txt''"

text \<open>The body of the \<open>try\<close> of \<open>main\<close> (lines 80-91).\<close>

definition main_try :: "env \<Rightarrow> world \<Rightarrow> (exn + unit) \<times> world" where
  "main_try E w =
     (let model_name = ''medium''
      in case load_model E model_name w of
           (Inl e, w1) \<Rightarrow> (Inl e, w1)
         | (Inr model, w1) \<Rightarrow>
             (case input E ''Enter the path to your audio file: '' w1 of
                (Inl e, w2) \<Rightarrow> (Inl e, w2)
              | (Inr audio_path, w2) \<Rightarrow>
                  (case is_file E audio_path w2 of
                     (Inl e, w3) \<Rightarrow> (Inl e, w3)
                   | (Inr False, w3) \<Rightarrow>
                       (Inr (),
                        logging_error
                          (''Audio file '' @ quoted audio_path @ '' does not exist.'') w3)
                   | (Inr True, w3) \<Rightarrow>
                       (case transcribe_audio E model audio_path None w3 of
                          (Inl e, w4) \<Rightarrow> (Inl e, w4)
                        | (Inr res, w4) \<Rightarrow> save_transcription E res output_file_name w4))))"

definition main :: "env \<Rightarrow> world \<Rightarrow> (exn + unit) \<times> world" where
  "main E w =
     (case main_try E w of
        (Inl e, w1) \<Rightarrow> (Inr (), logging_error (''An error occurred: '' @ str e) w1)
      | (Inr u, w1) \<Rightarrow> (Inr (), w1))"

section \<open>Observations used by the properties\<close>

text \<open>
  Text mode reads with universal newlines: a carriage return, alone or followed by a
  line feed, comes back as one line feed.
\<close>

fun universal_newlines :: "string \<Rightarrow> string" where
  "universal_newlines [] = []"
| "universal_newlines [c] = [if c = CHR 0x0D then CHR 0x0A else c]"
| "universal_newlines (c # d # cs) =
     (if c = CHR 0x0D \<and> d = CHR 0x0A then CHR 0x0A # universal_newlines cs
      else if c = CHR 0x0D then CHR 0x0A # universal_newlines (d # cs)
      else c # universal_newlines (d # cs))"

text \<open>
  Reading a file back, as \<open>open(path).read()\<close> does: the program itself never reads
  its output; the round-trip property does. \<open>None\<close> when the path names no regular
  file and the open fails.
\<close>

definition read_text :: "env \<Rightarrow> string \<Rightarrow> world \<Rightarrow> string option" where
  "read_text E path w =
     (case files w (file_named E path) of
        Some (File c) \<Rightarrow> Some (universal_newlines c)
      | _ \<Rightarrow> None)"

text \<open>
  A trace of calls in which the path is validated before the model is loaded: reading
  from the start, an \<open>IsFile\<close> check comes before any \<open>LoadModel\<close>.
\<close>

fun validated_before_load :: "call list \<Rightarrow> bool" where
  "validated_before_load [] = True"
| "validated_before_load (LoadModel n # cs) = False"
| "validated_before_load (IsFile p # cs) = True"
| "validated_before_load (c # cs) = validated_before_load cs"

text \<open>The calls made by the Runner and the Writer.\<close>

fun runner_writer_call :: "call \<Rightarrow> bool" where
  "runner_writer_call (Transcribe p) = True"
| "runner_writer_call (Open p) = True"
| "runner_writer_call (Write p) = True"
| "runner_writer_call c = False"

text \<open>Some ERROR line of the log mentions every one of the given texts.\<close>

definition logged_with :: "string list \<Rightarrow> world \<Rightarrow> bool" where
  "logged_with parts w =
     list_ex (\<lambda>(l, msg). l = ERROR \<and> list_all (\<lambda>s. sublist s msg) parts) (log w)"

section \<open>Concrete runs\<close>

definition w0 :: world where
  "w0 = \<lparr>files = [''a.wav'' \<mapsto> File ''RIFF''], clock = 0, log = [], calls = []\<rparr>"

definition w_old :: world where
  "w_old = w0\<lparr>files := (files w0)(''outputfile.txt'' \<mapsto> File ''an older transcript'')\<rparr>"

definition good_result :: result where
  "good_result = [''text'' \<mapsto> Str ''hello'', ''language'' \<mapsto> NonStr ''NoneType'']"

definition cr_result :: result where
  "cr_result = [''text'' \<mapsto> Str [CHR ''a'', CHR 0x0D, CHR ''b'']]"

definition good_engine :: engine where
  "good_engine = Engine (\<lambda>p n. (12, Inr good_result))"

definition slow_engine :: engine where
  "slow_engine = Engine (\<lambda>p n. (1000, Inr good_result))"

definition failing_engine :: engine where
  "failing_engine = Engine (\<lambda>p n. (3, Inl (Exn RuntimeError ''boom'')))"

text \<open>An engine whose transcript is what the file holds, with one more mark.\<close>

definition echo_engine :: engine where
  "echo_engine =
     Engine (\<lambda>p n. case n of
                     Some (File c) \<Rightarrow> (1, Inr [''text'' \<mapsto> Str (c @ ''!'')])
                   | _ \<Rightarrow> (1, Inl (Exn RuntimeError ''no audio'')))"

text \<open>
  A run in the working directory on a 64-bit Linux: \<open>./outputfile.txt\<close> is another
  name of \<open>outputfile.txt\<close>, a name of more than 255 characters cannot be looked up.
\<close>

definition env_ok :: env where
  "env_ok =
     \<lparr>whisper_load_model = (\<lambda>n. (5, Inr good_engine)),
      stdin_line = Inr ''a.wav'',
      file_named = (\<lambda>p. if p = ''./outputfile.txt'' then ''outputfile.txt'' else p),
      stat_error =
        (\<lambda>p. if 255 < length p
             then Some (Exn OSError (''[Errno 36] File name too long: '' @ quoted p))
             else None),
      is_a_directory_error = (\<lambda>p. Exn OSError (''[Errno 21] Is a directory: '' @ quoted p)),
      open_error = (\<lambda>p. None),
      write_error = (\<lambda>p s. None),
      wait_refused =
        (\<lambda>t. if 9223372036 < t
             then Some (Exn OverflowError ''timestamp too large to convert to C _PyTime_t'')
             else None),
      answer_wins_race = False\<rparr>"

definition env_missing :: env where
  "env_missing = env_ok\<lparr>stdin_line := Inr ''nope.wav''\<rparr>"

definition long_name :: string where
  "long_name = replicate 300 (CHR ''a'')"

definition env_long_name :: env where
  "env_long_name = env_ok\<lparr>stdin_line := Inr long_name\<rparr>"

definition env_load_fails :: env where
  "env_load_fails =
     env_ok\<lparr>whisper_load_model := (\<lambda>n. (1, Inl (Exn RuntimeError ''no weights'')))\<rparr>"

definition env_echo_output :: env where
  "env_echo_output =
     env_ok\<lparr>whisper_load_model := (\<lambda>n. (5, Inr echo_engine)),
            stdin_line := Inr ''./outputfile.txt''\<rparr>"

definition w_x :: world where
  "w_x = w0\<lparr>files := (files w0)(''outputfile.txt'' \<mapsto> File ''X'')\<rparr>"

section \<open>How the components change the world\<close>

lemmas world_ops = logging_info_def logging_error_def called_def sleep_def executor_exit_def

lemma files_ops [simp]:
  "files (logging_info msg w) = files w"
  "files (logging_error msg w) = files w"
  "files (called c w) = files w"
  "files (sleep d w) = files w"
  "files (executor_exit d k w) = files w"
  by (simp_all add: world_ops)

lemma calls_ops [simp]:
  "calls (logging_info msg w) = calls w"
  "calls (logging_error msg w) = calls w"
  "calls (called c w) = calls w @ [c]"
  "calls (sleep d w) = calls w"
  "calls (executor_exit d k w) = calls w"
  by (simp_all add: world_ops)

lemma log_ops [simp]:
  "log (logging_info msg w) = log w @ [(INFO, msg)]"
  "log (logging_error msg w) = log w @ [(ERROR, msg)]"
  "log (called c w) = log w"
  "log (sleep d w) = log w"
  "log (executor_exit d k w) = log w"
  by (simp_all add: world_ops)

lemma load_model_fst: "fst (load_model E n w) = snd (whisper_load_model E n)"
  by (simp add: load_model_def load_try_def Let_def split: prod.splits sum.splits)

lemma load_model_files: "files (snd (load_model E n w)) = files w"
  by (simp add: load_model_def load_try_def Let_def split: prod.splits sum.splits)

lemma load_model_calls: "calls (snd (load_model E n w)) = calls w @ [LoadModel n]"
  by (simp add: load_model_def load_try_def Let_def split: prod.splits sum.splits)

lemma transcribe_audio_fst:
  "fst (transcribe_audio E m p t w)
     = snd (future_result E
             (transcribe m p (files w (file_named E p))) (timeout_of t))"
  by (simp add: transcribe_audio_def transcribe_try_def Let_def split: prod.splits sum.splits)

lemma transcribe_audio_files: "files (snd (transcribe_audio E m p t w)) = files w"
  by (simp add: transcribe_audio_def transcribe_try_def Let_def split: prod.splits sum.splits)

lemma transcribe_audio_calls:
  "calls (snd (transcribe_audio E m p t w)) = calls w @ [Transcribe p]"
  by (simp add: transcribe_audio_def transcribe_try_def Let_def split: prod.splits sum.splits)

text \<open>
  Whatever the timeout, \<open>transcribe_audio\<close> gives control back exactly when the worker
  has answered.
\<close>

lemma transcribe_audio_clock:
  "clock (snd (transcribe_audio E m p t w))
     = clock w + fst (transcribe m p (files w (file_named E p)))"
  by (auto simp: transcribe_audio_def transcribe_try_def future_result_def world_ops Let_def
      split: prod.splits sum.splits option.splits if_splits)

lemma save_ok_iff:
  "fst (save_transcription E res path w) = Inr () \<longleftrightarrow>
     (\<exists>t. res ''text'' = Some (Str t) \<and> files w (file_named E path) \<noteq> Some Dir
        \<and> open_error E path = None \<and> write_error E path t = None)"
  by (auto simp: save_transcription_def save_try_def open_w_def subscript_def file_write_def
      Let_def split: prod.splits sum.splits option.splits if_splits pyval.splits)

lemma save_transcription_files:
  "files (snd (save_transcription E res path w)) =
     (if files w (file_named E path) = Some Dir \<or> open_error E path \<noteq> None then files w
      else (files w)(file_named E path \<mapsto> File
        (case res ''text'' of
           Some (Str s) \<Rightarrow> (case write_error E path s of Some (n, e) \<Rightarrow> take n s | None \<Rightarrow> s)
         | _ \<Rightarrow> [])))"
  by (simp add: save_transcription_def save_try_def open_w_def subscript_def file_write_def
      Let_def split: prod.splits sum.splits option.splits pyval.splits)

lemma save_ok_files:
  assumes "fst (save_transcription E res path w) = Inr ()" and "res ''text'' = Some (Str t)"
  shows "files (snd (save_transcription E res path w))
    = (files w)(file_named E path \<mapsto> File t)"
proof -
  from assms have "files w (file_named E path) \<noteq> Some Dir" "open_error E path = None"
    "write_error E path t = None"
    by (auto simp: save_ok_iff)
  with assms(2) show ?thesis
    by (simp add: save_transcription_files)
qed

lemma save_transcription_calls:
  "\<exists>tr. calls (snd (save_transcription E res path w)) = calls w @ Open path # tr"
  by (auto simp: save_transcription_def save_try_def open_w_def subscript_def file_write_def
      Let_def split: prod.splits sum.splits option.splits pyval.splits)

lemma universal_newlines_id: "CHR 0x0D \<notin> set t \<Longrightarrow> universal_newlines t = t"
  by (induction t rule: universal_newlines.induct) auto

text \<open>The five ways through \<open>main\<close>.\<close>

lemma main_try_load_fails:
  assumes "snd (whisper_load_model E ''medium'') = Inl e"
  shows "main_try E w = (Inl e, snd (load_model E ''medium'' w))"
  using assms by (simp add: main_try_def Let_def case_prod_beta load_model_fst)

lemma main_try_input_fails:
  assumes "snd (whisper_load_model E ''medium'') = Inr m" and "stdin_line E = Inl e"
  shows "main_try E w
    = (Inl e, called (Input ''Enter the path to your audio file: '')
               (snd (load_model E ''medium'' w)))"
  using assms by (simp add: main_try_def Let_def case_prod_beta load_model_fst input_def)

lemma main_try_stat_fails:
  assumes "snd (whisper_load_model E ''medium'') = Inr m" and "stdin_line E = Inr p"
    and "stat_error E p = Some e"
  shows "main_try E w
    = (Inl e, called (IsFile p) (called (Input ''Enter the path to your audio file: '')
               (snd (load_model E ''medium'' w))))"
  using assms
  by (simp add: main_try_def Let_def case_prod_beta load_model_fst input_def is_file_def)

lemma main_try_not_file:
  assumes "snd (whisper_load_model E ''medium'') = Inr m" and "stdin_line E = Inr p"
    and "stat_error E p = None"
    and "\<forall>c. files w (file_named E p) \<noteq> Some (File c)"
  shows "main_try E w
    = (Inr (), logging_error (''Audio file '' @ quoted p @ '' does not exist.'')
        (called (IsFile p) (called (Input ''Enter the path to your audio file: '')
               (snd (load_model E ''medium'' w)))))"
proof -
  from assms(4)
  have "(case files w (file_named E p) of
           None \<Rightarrow> False | Some (File c) \<Rightarrow> True | Some Dir \<Rightarrow> False) = False"
    by (auto split: option.splits fnode.splits)
  with assms(1,2,3) show ?thesis
    by (simp add: main_try_def Let_def case_prod_beta load_model_fst input_def is_file_def
        load_model_files)
qed

lemma main_try_valid:
  assumes "snd (whisper_load_model E ''medium'') = Inr m" and "stdin_line E = Inr p"
    and "stat_error E p = None"
    and "files w (file_named E p) = Some (File c)"
  shows "main_try E w
    = (case snd (future_result E
                   (transcribe m p (files w (file_named E p))) default_timeout) of
         Inl e \<Rightarrow>
           (Inl e,
            snd (transcribe_audio E m p None
              (called (IsFile p) (called (Input ''Enter the path to your audio file: '')
                 (snd (load_model E ''medium'' w))))))
       | Inr res \<Rightarrow>
           save_transcription E res output_file_name
             (snd (transcribe_audio E m p None
               (called (IsFile p) (called (Input ''Enter the path to your audio file: '')
                  (snd (load_model E ''medium'' w)))))))"
  using assms
  by (simp add: main_try_def Let_def case_prod_beta load_model_fst input_def is_file_def
      load_model_files transcribe_audio_fst timeout_of_def)

lemma main_snd_files: "files (snd (main E w)) = files (snd (main_try E w))"
  by (simp add: main_def split: prod.splits sum.splits)

lemma main_snd_calls: "calls (snd (main E w)) = calls (snd (main_try E w))"
  by (simp add: main_def split: prod.splits sum.splits)

lemma main_files:
  "files (snd (main E w)) =
     (case snd (whisper_load_model E ''medium'') of
        Inl e \<Rightarrow> files w
      | Inr m \<Rightarrow>
          (case stdin_line E of
             Inl e \<Rightarrow> files w
           | Inr p \<Rightarrow>
               (case stat_error E p of
                  Some e \<Rightarrow> files w
                | None \<Rightarrow>
                    (case files w (file_named E p) of
                       Some (File c) \<Rightarrow>
                         (case snd (future_result E
                                      (transcribe m p (files w (file_named E p)))
                                      default_timeout) of
                            Inl e \<Rightarrow> files w
                          | Inr res \<Rightarrow>
                              (if files w (file_named E output_file_name) = Some Dir
                                  \<or> open_error E output_file_name \<noteq> None then files w
                               else (files w)(file_named E output_file_name \<mapsto> File
                                 (case res ''text'' of
                                    Some (Str s) \<Rightarrow>
                                      (case write_error E output_file_name s of
                                         Some (n, e) \<Rightarrow> take n s | None \<Rightarrow> s)
                                  | _ \<Rightarrow> []))))
                     | _ \<Rightarrow> files w))))"
proof (cases "snd (whisper_load_model E ''medium'')")
  case (Inl e)
  then show ?thesis
    by (simp add: main_snd_files main_try_load_fails load_model_files)
next
  case M: (Inr m)
  show ?thesis
  proof (cases "stdin_line E")
    case (Inl e)
    with M show ?thesis
      by (simp add: main_snd_files main_try_input_fails load_model_files)
  next
    case P: (Inr p)
    show ?thesis
    proof (cases "stat_error E p")
      case (Some e)
      with M P show ?thesis
        by (simp add: main_snd_files main_try_stat_fails load_model_files)
    next
      case S: None
      show ?thesis
      proof (cases "\<exists>c. files w (file_named E p) = Some (File c)")
        case False
        then have "(case files w (file_named E p) of
              None \<Rightarrow> files w | Some (File c) \<Rightarrow> X c | Some Dir \<Rightarrow> files w) = files w" for X
          by (auto split: option.splits fnode.splits)
        with False M P S show ?thesis
          by (simp add: main_snd_files main_try_not_file load_model_files)
      next
        case True
        then obtain c where c: "files w (file_named E p) = Some (File c)" by blast
        show ?thesis
        proof (cases "snd (future_result E
            (transcribe m p (files w (file_named E p))) default_timeout)")
          case (Inl e)
          with M P S c show ?thesis
            by (simp add: main_snd_files main_try_valid [OF M P S c] transcribe_audio_files
                load_model_files)
        next
          case (Inr res)
          with M P S c show ?thesis
            by (simp add: main_snd_files main_try_valid [OF M P S c] save_transcription_files
                transcribe_audio_files load_model_files)
        qed
      qed
    qed
  qed
qed

lemma env_ok_run:
  "snd (whisper_load_model env_ok ''medium'') = Inr good_engine"
  "stdin_line env_ok = Inr ''a.wav''"
  "stat_error env_ok ''a.wav'' = None"
  "files w0 (file_named env_ok ''a.wav'') = Some (File ''RIFF'')"
  by (simp_all add: env_ok_def w0_def)

lemma main_env_ok_calls:
  "calls (snd (main env_ok w0))
     = [LoadModel ''medium'', Input ''Enter the path to your audio file: '', IsFile ''a.wav'',
        Transcribe ''a.wav'', Open ''outputfile.txt'', Write ''outputfile.txt'']"
  by (simp add: main_snd_calls main_try_valid [OF env_ok_run] load_model_calls
      transcribe_audio_calls)
    (simp add: future_result_def good_engine_def default_timeout_def good_result_def
      save_transcription_def save_try_def open_w_def subscript_def file_write_def
      output_file_name_def env_ok_def w0_def transcribe_audio_files load_model_files
      transcribe_audio_calls load_model_calls)

text \<open>
  When the operator names the output file itself as the audio, under another spelling,
  the first run overwrites the audio and the second run transcribes something else: the
  file holds \<open>X\<close>, then \<open>X!\<close>, then \<open>X!!\<close>.
\<close>

lemma main_twice_on_the_output_file:
  "stdin_line env_echo_output = Inr ''./outputfile.txt''
   \<and> files w_x ''outputfile.txt'' = Some (File ''X'')
   \<and> files (snd (main env_echo_output w_x)) ''outputfile.txt'' = Some (File ''X!'')
   \<and> files (snd (main env_echo_output (snd (main env_echo_output w_x)))) ''outputfile.txt''
       = Some (File ''X!!'')"
  by (simp add: main_files env_echo_output_def env_ok_def w_x_def w0_def echo_engine_def
      future_result_def default_timeout_def output_file_name_def)

section \<open>The Transcription Runner\<close>

text \<open>
  C1. A transcription that exceeds the timeout should make \<open>transcribe_audio\<close> raise the
  Timeout failure and give control back within a bounded margin of the timeout. Here the
  engine answers after 1000 seconds and the timeout is 300 seconds: the failure raised is
  the Timeout, but the call that started at second 0 gives control back at second 1000,
  when the worker has answered.
\<close>

theorem transcribe_audio_timeout_returns_late:
  "clock w0 = 0
   \<and> fst (transcribe_audio env_ok slow_engine ''a.wav'' (Some 300) w0)
       = Inl (Exn FuturesTimeoutError [])
   \<and> clock (snd (transcribe_audio env_ok slow_engine ''a.wav'' (Some 300) w0)) = 1000"
  by (simp add: transcribe_audio_fst transcribe_audio_clock timeout_of_def future_result_def
      slow_engine_def w0_def env_ok_def)

text \<open>
  C7. The timeout of \<open>transcribe_audio\<close> defaults to 300 seconds, and a successful call
  returns the very dictionary the engine's \<open>transcribe\<close> produced: whenever the call
  returns a result it is the engine's, and whenever the engine answers with a dictionary
  before the timeout has passed, the wait being one the platform accepts, the call
  returns it.
\<close>

theorem transcribe_audio_default_and_result:
  "transcribe_audio E m p None w = transcribe_audio E m p (Some 300) w
   \<and> (\<forall>r. fst (transcribe_audio E m p t w) = Inr r
          \<longrightarrow> snd (transcribe m p (files w (file_named E p))) = Inr r)
   \<and> (\<forall>r. snd (transcribe m p (files w (file_named E p))) = Inr r
            \<and> int (fst (transcribe m p (files w (file_named E p)))) < timeout_of t
            \<and> wait_refused E (timeout_of t) = None
          \<longrightarrow> fst (transcribe_audio E m p t w) = Inr r)"
proof (intro conjI allI impI)
  show "transcribe_audio E m p None w = transcribe_audio E m p (Some 300) w"
    by (simp add: transcribe_audio_def timeout_of_def default_timeout_def)
next
  fix r
  assume "fst (transcribe_audio E m p t w) = Inr r"
  then show "snd (transcribe m p (files w (file_named E p))) = Inr r"
    by (simp add: transcribe_audio_fst future_result_def split: if_splits option.splits)
next
  fix r
  assume "snd (transcribe m p (files w (file_named E p))) = Inr r
    \<and> int (fst (transcribe m p (files w (file_named E p)))) < timeout_of t
    \<and> wait_refused E (timeout_of t) = None"
  then show "fst (transcribe_audio E m p t w) = Inr r"
    by (simp add: transcribe_audio_fst future_result_def)
qed

theorem transcribe_audio_default_and_result_witness:
  "transcribe_audio env_ok good_engine ''a.wav'' None w0
     = transcribe_audio env_ok good_engine ''a.wav'' (Some 300) w0
   \<and> snd (transcribe good_engine ''a.wav'' (files w0 (file_named env_ok ''a.wav'')))
       = Inr good_result
   \<and> int (fst (transcribe good_engine ''a.wav'' (files w0 (file_named env_ok ''a.wav''))))
       < timeout_of None
   \<and> wait_refused env_ok (timeout_of None) = None
   \<and> fst (transcribe_audio env_ok good_engine ''a.wav'' None w0) = Inr good_result"
proof -
  have a: "snd (transcribe good_engine ''a.wav'' (files w0 (file_named env_ok ''a.wav'')))
    = Inr good_result"
    by (simp add: good_engine_def)
  have b: "int (fst (transcribe good_engine ''a.wav'' (files w0 (file_named env_ok ''a.wav''))))
    < timeout_of None"
    by (simp add: good_engine_def timeout_of_def default_timeout_def)
  have c: "wait_refused env_ok (timeout_of None) = None"
    by (simp add: timeout_of_def default_timeout_def env_ok_def)
  show ?thesis
    using a b c transcribe_audio_default_and_result [of env_ok good_engine "''a.wav''" w0 None]
    by blast
qed

section \<open>The Result Writer\<close>

text \<open>
  C3. \<open>save_transcription\<close> writes exactly the value of the result's "text" field as
  the whole content of the file at the output path, whatever the file held before, and
  touches no other file. The call returns normally exactly when the result has a "text"
  string and the file can be opened and written.
\<close>

theorem save_transcription_writes_text:
  "(fst (save_transcription E res path w) = Inr () \<longleftrightarrow>
      (\<exists>t. res ''text'' = Some (Str t) \<and> files w (file_named E path) \<noteq> Some Dir
         \<and> open_error E path = None \<and> write_error E path t = None))
   \<and> (\<forall>t. res ''text'' = Some (Str t) \<and> fst (save_transcription E res path w) = Inr ()
          \<longrightarrow> files (snd (save_transcription E res path w))
                = (files w)(file_named E path \<mapsto> File t))"
  using save_ok_iff [of E res path w] save_ok_files [of E res path w] by blast

theorem save_transcription_writes_text_witness:
  "good_result ''text'' = Some (Str ''hello'')
   \<and> files w_old (file_named env_ok ''outputfile.txt'') = Some (File ''an older transcript'')
   \<and> fst (save_transcription env_ok good_result ''outputfile.txt'' w_old) = Inr ()
   \<and> files (snd (save_transcription env_ok good_result ''outputfile.txt'' w_old))
       = (files w_old)(file_named env_ok ''outputfile.txt'' \<mapsto> File ''hello'')"
  using save_transcription_writes_text [of env_ok good_result "''outputfile.txt''" w_old]
  by (simp add: good_result_def env_ok_def w_old_def w0_def)

text \<open>
  C8 as stated: reading the output file back after a save gives a string identical to
  the result's "text" field. It fails for a text with a carriage return: the text
  \<open>a\<close>, carriage return, \<open>b\<close> is saved as it is and reads back as \<open>a\<close>, line
  feed, \<open>b\<close>.
\<close>

theorem save_then_read_carriage_return_counterexample:
  "cr_result ''text'' = Some (Str [CHR ''a'', CHR 0x0D, CHR ''b''])
   \<and> fst (save_transcription env_ok cr_result ''outputfile.txt'' w0) = Inr ()
   \<and> read_text env_ok ''outputfile.txt''
        (snd (save_transcription env_ok cr_result ''outputfile.txt'' w0))
       = Some [CHR ''a'', CHR 0x0A, CHR ''b'']
   \<and> [CHR ''a'', CHR 0x0A, CHR ''b''] \<noteq> [CHR ''a'', CHR 0x0D, CHR ''b'']"
proof -
  have t: "cr_result ''text'' = Some (Str [CHR ''a'', CHR 0x0D, CHR ''b''])"
    by (simp add: cr_result_def)
  have ok: "fst (save_transcription env_ok cr_result ''outputfile.txt'' w0) = Inr ()"
    by (simp add: save_ok_iff cr_result_def env_ok_def w0_def)
  show ?thesis
    using t ok save_ok_files [OF ok t]
    by (simp add: read_text_def)
qed

text \<open>
  C8 as the code has it. Round trip: when the "text" field holds no carriage return,
  reading the output file back after a save that returns normally gives a string
  identical to it.
\<close>

theorem save_then_read_roundtrip:
  assumes "res ''text'' = Some (Str t)"
    and "fst (save_transcription E res path w) = Inr ()"
    and "CHR 0x0D \<notin> set t"
  shows "read_text E path (snd (save_transcription E res path w)) = Some t"
  using save_ok_files [OF assms(2) assms(1)] universal_newlines_id [OF assms(3)]
  by (simp add: read_text_def)

theorem save_then_read_roundtrip_witness:
  "good_result ''text'' = Some (Str ''hello'')
   \<and> fst (save_transcription env_ok good_result ''outputfile.txt'' w0) = Inr ()
   \<and> CHR 0x0D \<notin> set ''hello''
   \<and> read_text env_ok ''outputfile.txt'' w0 = None
   \<and> read_text env_ok ''outputfile.txt''
        (snd (save_transcription env_ok good_result ''outputfile.txt'' w0)) = Some ''hello''"
proof -
  have t: "good_result ''text'' = Some (Str ''hello'')"
    by (simp add: good_result_def)
  have ok: "fst (save_transcription env_ok good_result ''outputfile.txt'' w0) = Inr ()"
    by (simp add: save_ok_iff good_result_def env_ok_def w0_def)
  have cr: "CHR 0x0D \<notin> set ''hello''"
    by simp
  show ?thesis
    using t ok cr save_then_read_roundtrip [OF t ok cr]
    by (simp add: read_text_def w0_def env_ok_def)
qed

text \<open>
  C10. When the result has no "text" key, the lookup fails only after the output file has
  been opened for writing: if the open succeeds, \<open>save_transcription\<close> raises the
  \<open>KeyError\<close> and leaves the file created or truncated to empty; if the open fails, it
  is the open's failure that is raised and no file changes.
\<close>

theorem save_transcription_missing_text:
  assumes "res ''text'' = None"
  shows "(fst (open_w E path w) = Inr () \<longrightarrow>
            fst (save_transcription E res path w) = Inl (Exn KeyError (quoted ''text''))
            \<and> files (snd (save_transcription E res path w))
                = (files w)(file_named E path \<mapsto> File [])
            \<and> calls (snd (save_transcription E res path w)) = calls w @ [Open path])
         \<and> (\<forall>e. fst (open_w E path w) = Inl e \<longrightarrow>
              fst (save_transcription E res path w) = Inl e
              \<and> files (snd (save_transcription E res path w)) = files w)"
  using assms
  by (auto simp: save_transcription_def save_try_def open_w_def subscript_def Let_def world_ops
      split: prod.splits sum.splits option.splits if_splits)

theorem save_transcription_missing_text_witness:
  "(Map.empty :: result) ''text'' = None
   \<and> fst (open_w env_ok ''outputfile.txt'' w_old) = Inr ()
   \<and> files w_old ''outputfile.txt'' = Some (File ''an older transcript'')
   \<and> fst (save_transcription env_ok Map.empty ''outputfile.txt'' w_old)
       = Inl (Exn KeyError (quoted ''text''))
   \<and> files (snd (save_transcription env_ok Map.empty ''outputfile.txt'' w_old)) ''outputfile.txt''
       = Some (File [])"
proof -
  have o: "fst (open_w env_ok ''outputfile.txt'' w_old) = Inr ()"
    by (simp add: open_w_def env_ok_def w_old_def w0_def world_ops)
  have n: "file_named env_ok ''outputfile.txt'' = ''outputfile.txt''"
    by (simp add: env_ok_def)
  show ?thesis
    using o save_transcription_missing_text [of Map.empty env_ok "''outputfile.txt''" w_old]
    by (simp add: n w_old_def w0_def)
qed

section \<open>The Driver\<close>

text \<open>
  C2 as stated: the audio path is obtained and validated before the Model Loader is
  invoked. It fails on every run: in the run on an existing audio file the first call is
  the load, and the prompt and the file check follow it.
\<close>

theorem main_validates_after_load_counterexample:
  "calls (snd (main env_ok w0))
     = [LoadModel ''medium'', Input ''Enter the path to your audio file: '', IsFile ''a.wav'',
        Transcribe ''a.wav'', Open ''outputfile.txt'', Write ''outputfile.txt'']
   \<and> \<not> validated_before_load (calls (snd (main env_ok w0)))"
  by (simp add: main_env_ok_calls)

text \<open>
  C2 as the code has it: \<open>main\<close> invokes the Model Loader first; the audio path is
  obtained from standard input and checked afterwards; the Runner and the Writer are
  called only when that check has found an existing regular file, and the Runner comes
  right after the check.
\<close>

theorem main_call_order:
  "\<exists>tr. calls (snd (main E w)) = calls w @ LoadModel ''medium'' # tr
     \<and> (list_ex runner_writer_call tr \<longrightarrow>
          (\<exists>p c tr'. stdin_line E = Inr p \<and> stat_error E p = None
             \<and> files w (file_named E p) = Some (File c)
             \<and> tr = Input ''Enter the path to your audio file: '' # IsFile p # Transcribe p # tr'))"
proof (cases "snd (whisper_load_model E ''medium'')")
  case (Inl e)
  then show ?thesis
    by (simp add: main_snd_calls main_try_load_fails load_model_calls)
next
  case M: (Inr m)
  show ?thesis
  proof (cases "stdin_line E")
    case (Inl e)
    with M show ?thesis
      by (simp add: main_snd_calls main_try_input_fails load_model_calls)
  next
    case P: (Inr p)
    show ?thesis
    proof (cases "stat_error E p")
      case (Some e)
      with M P show ?thesis
        by (simp add: main_snd_calls main_try_stat_fails load_model_calls)
    next
      case S: None
      show ?thesis
      proof (cases "\<exists>c. files w (file_named E p) = Some (File c)")
        case False
        with M P S show ?thesis
          by (simp add: main_snd_calls main_try_not_file load_model_calls)
      next
        case True
        then obtain c where c: "files w (file_named E p) = Some (File c)" by blast
        show ?thesis
        proof (cases "snd (future_result E
            (transcribe m p (files w (file_named E p))) default_timeout)")
          case (Inl e)
          with M P S c show ?thesis
            by (simp add: main_snd_calls main_try_valid [OF M P S c] load_model_calls
                transcribe_audio_calls)
        next
          case (Inr res)
          let ?w4 = "snd (transcribe_audio E m p None
                 (called (IsFile p) (called (Input ''Enter the path to your audio file: '')
                    (snd (load_model E ''medium'' w)))))"
          obtain tr where "calls (snd (save_transcription E res output_file_name ?w4))
              = calls ?w4 @ Open output_file_name # tr"
            using save_transcription_calls by blast
          with Inr M P S c show ?thesis
            by (simp add: main_snd_calls main_try_valid [OF M P S c] load_model_calls
                transcribe_audio_calls)
        qed
      qed
    qed
  qed
qed

theorem main_call_order_witness:
  "\<exists>tr. calls (snd (main env_ok w0)) = calls w0 @ LoadModel ''medium'' # tr
     \<and> list_ex runner_writer_call tr
     \<and> (\<exists>p c tr'. stdin_line env_ok = Inr p \<and> stat_error env_ok p = None
           \<and> files w0 (file_named env_ok p) = Some (File c)
           \<and> tr = Input ''Enter the path to your audio file: '' # IsFile p # Transcribe p # tr')"
proof -
  from main_call_order [of env_ok w0] obtain tr
    where tr: "calls (snd (main env_ok w0)) = calls w0 @ LoadModel ''medium'' # tr"
      and after: "list_ex runner_writer_call tr \<longrightarrow>
          (\<exists>p c tr'. stdin_line env_ok = Inr p \<and> stat_error env_ok p = None
             \<and> files w0 (file_named env_ok p) = Some (File c)
             \<and> tr = Input ''Enter the path to your audio file: '' # IsFile p # Transcribe p # tr')"
    by blast
  have "calls w0 = []"
    by (simp add: w0_def)
  with tr main_env_ok_calls
  have "tr = [Input ''Enter the path to your audio file: '', IsFile ''a.wav'',
        Transcribe ''a.wav'', Open ''outputfile.txt'', Write ''outputfile.txt'']"
    by simp
  then have "list_ex runner_writer_call tr"
    by simp
  with tr after show ?thesis
    by blast
qed

lemma env_long_name_run:
  "snd (whisper_load_model env_long_name ''medium'') = Inr good_engine"
  "stdin_line env_long_name = Inr long_name"
  "stat_error env_long_name long_name
     = Some (Exn OSError (''[Errno 36] File name too long: '' @ quoted long_name))"
  "\<forall>c. files w0 (file_named env_long_name long_name) \<noteq> Some (File c)"
proof -
  have len: "length long_name = 300"
    by (simp add: long_name_def)
  have differs: "long_name \<noteq> s" if "length s < 300" for s
  proof
    assume "long_name = s"
    then have "length long_name = length s" by (rule arg_cong)
    with len that show False by simp
  qed
  have ne: "long_name \<noteq> ''a.wav''" "long_name \<noteq> ''./outputfile.txt''"
    by (rule differs, simp)+
  show "snd (whisper_load_model env_long_name ''medium'') = Inr good_engine"
    and "stdin_line env_long_name = Inr long_name"
    and "stat_error env_long_name long_name
      = Some (Exn OSError (''[Errno 36] File name too long: '' @ quoted long_name))"
    by (simp_all add: env_long_name_def env_ok_def len)
  show "\<forall>c. files w0 (file_named env_long_name long_name) \<noteq> Some (File c)"
    using ne by (simp add: env_long_name_def env_ok_def w0_def)
qed

text \<open>
  C4 as stated: for every path that does not refer to an existing regular file, \<open>main\<close>
  logs the missing file. It fails when the file check itself fails: for a name of 300
  characters \<open>is_file\<close> raises, \<open>main\<close> logs that error as \<open>An error occurred\<close> and
  the line about the missing file is never logged.
\<close>

theorem main_file_check_fails_counterexample:
  "(\<forall>c. files w0 (file_named env_long_name long_name) \<noteq> Some (File c))
   \<and> stdin_line env_long_name = Inr long_name
   \<and> fst (main env_long_name w0) = Inr ()
   \<and> last (log (snd (main env_long_name w0)))
       = (ERROR, ''An error occurred: [Errno 36] File name too long: '' @ quoted long_name)
   \<and> (ERROR, ''Audio file '' @ quoted long_name @ '' does not exist.'')
       \<notin> set (log (snd (main env_long_name w0)))"
proof -
  have l: "log (snd (load_model env_long_name ''medium'' w0))
      = [(INFO, ''Model '' @ quoted ''medium'' @ '' loaded successfully.''),
         (INFO, ''Time taken to load model: '' @ fmt_2f 5 @ '' seconds'')]"
    by (simp add: load_model_def load_try_def env_long_name_def env_ok_def w0_def world_ops)
  have "log (snd (main env_long_name w0))
      = log (snd (load_model env_long_name ''medium'' w0))
          @ [(ERROR, ''An error occurred: [Errno 36] File name too long: '' @ quoted long_name)]"
    by (simp add: main_def main_try_stat_fails [OF env_long_name_run(1,2,3)])
  with l env_long_name_run(2,4) show ?thesis
    by (simp add: main_def main_try_stat_fails [OF env_long_name_run(1,2,3)])
qed

text \<open>
  C4 as the code has it. When the path the operator supplies is not an existing regular
  file, \<open>main\<close> returns normally and the file system is exactly as it was:
  \<open>outputfile.txt\<close> is neither created nor changed. Its last log line reports the
  missing file when the file check answers, and reports the error of the check itself
  when the check raises. The operator is asked for the path only once the model has
  loaded.
\<close>

theorem main_missing_audio_file:
  assumes "snd (whisper_load_model E ''medium'') = Inr m"
    and "stdin_line E = Inr p"
    and "\<forall>c. files w (file_named E p) \<noteq> Some (File c)"
  shows "fst (main E w) = Inr ()
    \<and> log (snd (main E w))
        = log (snd (load_model E ''medium'' w))
            @ [(ERROR,
                case stat_error E p of
                  None \<Rightarrow> ''Audio file '' @ quoted p @ '' does not exist.''
                | Some e \<Rightarrow> ''An error occurred: '' @ str e)]
    \<and> files (snd (main E w)) = files w
    \<and> calls (snd (main E w))
        = calls w @ [LoadModel ''medium'', Input ''Enter the path to your audio file: '',
                     IsFile p]"
proof (cases "stat_error E p")
  case None
  show ?thesis
    by (simp add: main_def main_try_not_file [OF assms(1,2) None assms(3)] None
        load_model_files load_model_calls)
next
  case (Some e)
  show ?thesis
    by (simp add: main_def main_try_stat_fails [OF assms(1,2) Some] Some
        load_model_files load_model_calls)
qed

theorem main_missing_audio_file_witness:
  "snd (whisper_load_model env_missing ''medium'') = Inr good_engine
   \<and> stdin_line env_missing = Inr ''nope.wav''
   \<and> (\<forall>c. files w_old (file_named env_missing ''nope.wav'') \<noteq> Some (File c))
   \<and> fst (main env_missing w_old) = Inr ()
   \<and> last (log (snd (main env_missing w_old)))
       = (ERROR, ''Audio file '' @ quoted ''nope.wav'' @ '' does not exist.'')
   \<and> files (snd (main env_missing w_old)) ''outputfile.txt''
       = Some (File ''an older transcript'')
   \<and> files (snd (main env_missing w0)) ''outputfile.txt'' = None
   \<and> last (log (snd (main env_long_name w0)))
       = (ERROR, ''An error occurred: [Errno 36] File name too long: '' @ quoted long_name)
   \<and> files (snd (main env_long_name w0)) = files w0"
proof -
  have m: "snd (whisper_load_model env_missing ''medium'') = Inr good_engine"
    and p: "stdin_line env_missing = Inr ''nope.wav''"
    and s: "stat_error env_missing ''nope.wav'' = None"
    by (simp_all add: env_missing_def env_ok_def)
  have old: "\<forall>c. files w_old (file_named env_missing ''nope.wav'') \<noteq> Some (File c)"
    and new: "\<forall>c. files w0 (file_named env_missing ''nope.wav'') \<noteq> Some (File c)"
    by (simp_all add: w_old_def w0_def env_missing_def env_ok_def)
  have a: "fst (main env_missing w_old) = Inr ()
    \<and> last (log (snd (main env_missing w_old)))
       = (ERROR, ''Audio file '' @ quoted ''nope.wav'' @ '' does not exist.'')
    \<and> files (snd (main env_missing w_old)) ''outputfile.txt''
       = Some (File ''an older transcript'')"
    using main_missing_audio_file [OF m p old] by (simp add: s w_old_def w0_def)
  have b: "files (snd (main env_missing w0)) ''outputfile.txt'' = None"
    using main_missing_audio_file [OF m p new] by (simp add: w0_def)
  have c: "last (log (snd (main env_long_name w0)))
       = (ERROR, ''An error occurred: [Errno 36] File name too long: '' @ quoted long_name)
    \<and> files (snd (main env_long_name w0)) = files w0"
    using main_missing_audio_file [OF env_long_name_run(1,2,4)]
    by (simp add: env_long_name_run(3))
  show ?thesis
    using m p old a b c by blast
qed

text \<open>
  C5. Whatever happens inside its \<open>try\<close> block, \<open>main\<close> returns normally: an exception
  that escapes the load, prompt, transcribe, save sequence is caught, logged with its
  message as one more ERROR line, and nothing is raised to the caller.
\<close>

theorem main_never_raises:
  "fst (main E w) = Inr ()
   \<and> (\<forall>e w1. main_try E w = (Inl e, w1)
         \<longrightarrow> snd (main E w) = logging_error (''An error occurred: '' @ str e) w1)
   \<and> (\<forall>w1. main_try E w = (Inr (), w1) \<longrightarrow> snd (main E w) = w1)"
  by (simp add: main_def split: prod.splits sum.splits)

theorem main_never_raises_witness:
  "main_try env_load_fails w0
     = (Inl (Exn RuntimeError ''no weights''), snd (load_model env_load_fails ''medium'' w0))
   \<and> fst (main env_load_fails w0) = Inr ()
   \<and> snd (main env_load_fails w0)
       = logging_error (''An error occurred: '' @ ''no weights'')
           (snd (load_model env_load_fails ''medium'' w0))
   \<and> log (snd (main env_load_fails w0))
       = [(ERROR, ''Failed to load the model '' @ quoted ''medium'' @ ''. Error: no weights''),
          (ERROR, ''An error occurred: no weights'')]"
proof -
  have l: "snd (whisper_load_model env_load_fails ''medium'') = Inl (Exn RuntimeError ''no weights'')"
    by (simp add: env_load_fails_def)
  have t: "main_try env_load_fails w0
     = (Inl (Exn RuntimeError ''no weights''), snd (load_model env_load_fails ''medium'' w0))"
    by (rule main_try_load_fails [OF l])
  have g: "log (snd (load_model env_load_fails ''medium'' w0))
     = [(ERROR, ''Failed to load the model '' @ quoted ''medium'' @ ''. Error: no weights'')]"
    by (simp add: load_model_def load_try_def env_load_fails_def w0_def)
  show ?thesis
    using t g main_never_raises [of env_load_fails w0]
    by simp
qed

text \<open>
  C9. Idempotence: with the same environment (the same deterministic engine, the same
  answers of the file system) and an audio path that names another file than
  \<open>outputfile.txt\<close> does, so that the second run transcribes the same audio, a second
  run of \<open>main\<close> leaves every file, and \<open>outputfile.txt\<close> in particular, exactly as the
  first run left it: the transcript is written over, never appended.
\<close>

theorem main_twice_same_output:
  assumes "\<forall>p. stdin_line E = Inr p \<longrightarrow> file_named E p \<noteq> file_named E output_file_name"
  shows "files (snd (main E (snd (main E w)))) = files (snd (main E w))"
proof (cases "snd (whisper_load_model E ''medium'')")
  case (Inl e)
  then show ?thesis by (simp add: main_files)
next
  case M: (Inr m)
  show ?thesis
  proof (cases "stdin_line E")
    case (Inl e)
    with M show ?thesis by (simp add: main_files)
  next
    case P: (Inr p)
    with assms have ne: "file_named E p \<noteq> file_named E output_file_name" by auto
    show ?thesis
    proof (cases "stat_error E p")
      case (Some e)
      with M P show ?thesis by (simp add: main_files)
    next
      case S: None
      show ?thesis
      proof (cases "files w (file_named E p)")
        case None
        with M P S show ?thesis by (simp add: main_files)
      next
        case (Some nd)
        show ?thesis
        proof (cases nd)
          case Dir
          with M P S Some show ?thesis by (simp add: main_files)
        next
          case (File c)
          show ?thesis
          proof (cases "snd (future_result E
              (transcribe m p (Some (File c))) default_timeout)")
            case (Inl e)
            with M P S Some File show ?thesis by (simp add: main_files)
          next
            case R: (Inr res)
            show ?thesis
            proof (cases "files w (file_named E output_file_name) = Some Dir
                \<or> open_error E output_file_name \<noteq> None")
              case True
              with M P S Some File R show ?thesis by (simp add: main_files)
            next
              case False
              with M P S Some File R ne show ?thesis by (simp add: main_files)
            qed
          qed
        qed
      qed
    qed
  qed
qed

theorem main_twice_same_output_witness:
  "stdin_line env_ok = Inr ''a.wav''
   \<and> file_named env_ok ''a.wav'' \<noteq> file_named env_ok output_file_name
   \<and> files (snd (main env_ok (snd (main env_ok w_old)))) = files (snd (main env_ok w_old))
   \<and> files w_old ''outputfile.txt'' = Some (File ''an older transcript'')
   \<and> files (snd (main env_ok w_old)) ''outputfile.txt'' = Some (File ''hello'')
   \<and> files (snd (main env_ok (snd (main env_ok w_old)))) ''outputfile.txt''
       = Some (File ''hello'')"
proof -
  have ne: "\<forall>p. stdin_line env_ok = Inr p
      \<longrightarrow> file_named env_ok p \<noteq> file_named env_ok output_file_name"
    by (simp add: env_ok_def output_file_name_def)
  have a: "stdin_line env_ok = Inr ''a.wav''"
    and b: "file_named env_ok ''a.wav'' \<noteq> file_named env_ok output_file_name"
    by (simp_all add: env_ok_def output_file_name_def)
  have old: "files w_old ''outputfile.txt'' = Some (File ''an older transcript'')"
    by (simp add: w_old_def)
  have one: "files (snd (main env_ok w_old)) ''outputfile.txt'' = Some (File ''hello'')"
    by (simp add: main_files env_ok_def w_old_def w0_def good_engine_def good_result_def
        future_result_def default_timeout_def output_file_name_def)
  show ?thesis
    using a b old one main_twice_same_output [OF ne, of w_old]
    by simp
qed

section \<open>Failures inside the three components\<close>

text \<open>
  C6 as stated: each component logs a failure with its operand and the underlying error
  message before re-raising it. For \<open>transcribe_audio\<close> it fails: the engine's error
  \<open>boom\<close> on \<open>a.wav\<close> is re-raised, but the only line logged is
  \<open>Transcription failed. Error: boom\<close>, which does not mention the audio path.
\<close>

theorem transcribe_audio_log_omits_operand_counterexample:
  "fst (transcribe_audio env_ok failing_engine ''a.wav'' None w0)
     = Inl (Exn RuntimeError ''boom'')
   \<and> log (snd (transcribe_audio env_ok failing_engine ''a.wav'' None w0))
       = [(ERROR, ''Transcription failed. Error: boom'')]
   \<and> \<not> logged_with [''a.wav'', ''boom'']
         (snd (transcribe_audio env_ok failing_engine ''a.wav'' None w0))"
proof -
  have l: "log (snd (transcribe_audio env_ok failing_engine ''a.wav'' None w0))
       = [(ERROR, ''Transcription failed. Error: boom'')]"
    by (simp add: transcribe_audio_def transcribe_try_def future_result_def timeout_of_def
        default_timeout_def failing_engine_def w0_def env_ok_def)
  have "\<not> sublist ''a.wav'' ''Transcription failed. Error: boom''"
    by (simp add: sublist_Cons_right)
  with l show ?thesis
    by (simp add: logged_with_def transcribe_audio_fst future_result_def timeout_of_def
        default_timeout_def failing_engine_def env_ok_def)
qed

text \<open>
  C6 as the code has it: a failure inside a component is re-raised unchanged after exactly
  one ERROR line, and is never swallowed. The line of \<open>load_model\<close> carries the model
  name and the error message; the line of \<open>save_transcription\<close> carries the output path
  and the error message; the line of \<open>transcribe_audio\<close> carries the timeout value when
  the failure is a timeout and the error message alone otherwise.
\<close>

theorem components_log_and_reraise:
  "(\<forall>e. snd (whisper_load_model E n) = Inl e \<longrightarrow>
       fst (load_model E n w) = Inl e
       \<and> log (snd (load_model E n w))
           = log w @ [(ERROR, ''Failed to load the model '' @ quoted n @ ''. Error: '' @ str e)])
   \<and> (\<forall>e. snd (future_result E
                 (transcribe m p (files w (file_named E p))) (timeout_of t)) = Inl e \<longrightarrow>
       fst (transcribe_audio E m p t w) = Inl e
       \<and> log (snd (transcribe_audio E m p t w))
           = log w @ [(ERROR,
               if class_of e = FuturesTimeoutError
               then ''Transcription timed out after '' @ str_int (timeout_of t) @ '' seconds.''
               else ''Transcription failed. Error: '' @ str e)])
   \<and> (\<forall>e. fst (save_try E res path w) = Inl e \<longrightarrow>
       fst (save_transcription E res path w) = Inl e
       \<and> log (snd (save_transcription E res path w))
           = log w @ [(ERROR,
               ''Failed to save transcription to '' @ quoted path @ ''. Error: '' @ str e)])"
proof (intro conjI allI impI)
  fix e
  assume "snd (whisper_load_model E n) = Inl e"
  then show "fst (load_model E n w) = Inl e"
    by (simp add: load_model_fst)
next
  fix e
  assume "snd (whisper_load_model E n) = Inl e"
  then show "log (snd (load_model E n w))
      = log w @ [(ERROR, ''Failed to load the model '' @ quoted n @ ''. Error: '' @ str e)]"
    by (simp add: load_model_def load_try_def Let_def case_prod_beta)
next
  fix e
  assume "snd (future_result E
    (transcribe m p (files w (file_named E p))) (timeout_of t)) = Inl e"
  then show "fst (transcribe_audio E m p t w) = Inl e"
    by (simp add: transcribe_audio_fst)
next
  fix e
  assume "snd (future_result E
    (transcribe m p (files w (file_named E p))) (timeout_of t)) = Inl e"
  then show "log (snd (transcribe_audio E m p t w))
      = log w @ [(ERROR,
               if class_of e = FuturesTimeoutError
               then ''Transcription timed out after '' @ str_int (timeout_of t) @ '' seconds.''
               else ''Transcription failed. Error: '' @ str e)]"
    by (simp add: transcribe_audio_def transcribe_try_def Let_def case_prod_beta)
next
  fix e
  assume "fst (save_try E res path w) = Inl e"
  then show "fst (save_transcription E res path w) = Inl e"
    by (simp add: save_transcription_def case_prod_beta split: sum.splits)
next
  fix e
  assume "fst (save_try E res path w) = Inl e"
  then show "log (snd (save_transcription E res path w))
      = log w @ [(ERROR,
               ''Failed to save transcription to '' @ quoted path @ ''. Error: '' @ str e)]"
    by (auto simp: save_transcription_def save_try_def open_w_def subscript_def file_write_def
        Let_def world_ops split: prod.splits sum.splits option.splits pyval.splits if_splits)
qed

theorem components_log_and_reraise_witness:
  "snd (whisper_load_model env_load_fails ''medium'') = Inl (Exn RuntimeError ''no weights'')
   \<and> fst (load_model env_load_fails ''medium'' w0) = Inl (Exn RuntimeError ''no weights'')
   \<and> log (snd (load_model env_load_fails ''medium'' w0))
       = [(ERROR, ''Failed to load the model '' @ quoted ''medium'' @ ''. Error: no weights'')]
   \<and> snd (future_result env_ok
            (transcribe slow_engine ''a.wav'' (files w0 (file_named env_ok ''a.wav'')))
            (timeout_of None))
       = Inl (Exn FuturesTimeoutError [])
   \<and> fst (transcribe_audio env_ok slow_engine ''a.wav'' None w0)
       = Inl (Exn FuturesTimeoutError [])
   \<and> log (snd (transcribe_audio env_ok slow_engine ''a.wav'' None w0))
       = [(ERROR, ''Transcription timed out after '' @ str_int 300 @ '' seconds.'')]
   \<and> fst (save_try env_ok Map.empty ''outputfile.txt'' w0) = Inl (Exn KeyError (quoted ''text''))
   \<and> fst (save_transcription env_ok Map.empty ''outputfile.txt'' w0)
       = Inl (Exn KeyError (quoted ''text''))
   \<and> log (snd (save_transcription env_ok Map.empty ''outputfile.txt'' w0))
       = [(ERROR, ''Failed to save transcription to '' @ quoted ''outputfile.txt''
                    @ ''. Error: '' @ quoted ''text'')]"
proof -
  have a: "snd (whisper_load_model env_load_fails ''medium'') = Inl (Exn RuntimeError ''no weights'')"
    by (simp add: env_load_fails_def)
  have b: "snd (future_result env_ok
            (transcribe slow_engine ''a.wav'' (files w0 (file_named env_ok ''a.wav'')))
            (timeout_of None))
       = Inl (Exn FuturesTimeoutError [])"
    by (simp add: future_result_def slow_engine_def timeout_of_def default_timeout_def
        env_ok_def)
  have c: "fst (save_try env_ok Map.empty ''outputfile.txt'' w0) = Inl (Exn KeyError (quoted ''text''))"
    by (simp add: save_try_def open_w_def subscript_def env_ok_def w0_def)
  have l: "log w0 = []"
    by (simp add: w0_def)
  have d: "timeout_of None = 300"
    by (simp add: timeout_of_def default_timeout_def)
  show ?thesis
    using a b c
      components_log_and_reraise [where E = env_load_fails and n = "''medium''" and w = w0]
      components_log_and_reraise [where E = env_ok and w = w0 and m = slow_engine
        and p = "''a.wav''" and t = None and res = Map.empty and path = "''outputfile.txt''"]
    by (simp add: l d)
qed

end
